theory Spec2Isabelle
  imports Complex_Main
begin

section \<open>Expression normalizer: \<open>CalcApp.parseParentheses\<close>\<close>

text \<open>
  Strings are lists of characters; a character stands for the code point of the same
  number (0 to 255).  \<open>str.isnumeric\<close> holds of the ASCII digits and, in that range, of
  the superscripts and vulgar fractions of Latin-1.  The comparison \<open>char is parenth\<close>
  of the source compares one-character strings, which CPython shares, so it is equality.

  The outer loop of the source runs twice.  Its flag \<open>isLeft\<close> is the loop counter, 0 in
  the first pass and 1 in the second, so the first pass looks at \<open>)\<close> and the second at
  \<open>(\<close>.  The inner loop walks the list of positions computed at the start of the pass;
  after an insertion the source adds 1 to every entry of that list, and only the entries
  still to be visited are read again, so \<open>innerLoop\<close> carries those.  The test
  \<open>innerIndex != parenthCount\<close> of the source is always true inside the loop.
\<close>

definition isnumeric :: "char \<Rightarrow> bool" where
  "isnumeric c \<longleftrightarrow> c \<in> set ''0123456789'' \<or> of_char c \<in> {178, 179, 185, 188, 189, 190 :: nat}"

definition parenthPositions :: "char \<Rightarrow> string \<Rightarrow> nat list" where
  "parenthPositions parenth s = filter (\<lambda>pos. s ! pos = parenth) [0..<length s]"

fun innerLoop :: "bool \<Rightarrow> nat list \<Rightarrow> string \<Rightarrow> string" where
  "innerLoop isLeft [] s = s"
| "innerLoop isLeft (parenthPos # rest) s =
     (if parenthPos > 0 \<and> isnumeric (s ! (parenthPos - 1))
         \<and> parenthPos \<noteq> length s - 1 \<and> isnumeric (s ! (parenthPos + 1))
      then (let posAdjustment = (if isLeft then 0 else 1);
                slice = parenthPos + posAdjustment
            in innerLoop isLeft (map Suc rest) (take slice s @ ''*'' @ drop slice s))
      else innerLoop isLeft rest s)"

definition parsePass :: "bool \<Rightarrow> string \<Rightarrow> string" where
  "parsePass isLeft s =
     (let parenth = (if isLeft then CHR ''('' else CHR '')'')
      in innerLoop isLeft (parenthPositions parenth s) s)"

definition parseParentheses :: "string \<Rightarrow> string" where
  "parseParentheses s = parsePass True (parsePass False s)"


section \<open>The Python runtime the calculator calls\<close>

text \<open>
  The source evaluates with the interpreter's builtin \<open>eval\<close>, converts with \<open>float\<close>
  and \<open>str\<close>, and formats with \<open>'{:.{precision}f}'\<close>.  These are not code of the
  repository; they are modelled here on a fragment, from the language reference.
  The constructor \<open>OutsideModel\<close> marks an input that the model does not cover (names,
  whitespace, exponents, infinities, negative zero, tuples, powers and remainders of
  floats, ...): nothing is claimed about the interpreter there.  Results that depend on
  the evaluator in general are stated for an arbitrary evaluator, passed as a parameter.

  A finite float is the rational number it denotes; \<open>round_double\<close> rounds a rational to
  the nearest IEEE 754 binary64 value, ties to even, subnormals included.
\<close>

datatype pyexc = SyntaxError | KeyError | ZeroDivisionError | ValueError | IndexError
  | TypeError | OverflowError | OutsideModel

datatype pyval = PInt int | PFloat rat | PStr string

subsection \<open>Integers and floats as text\<close>

text \<open>
  \<open>dec_int\<close> is \<open>str\<close> of an integer.  \<open>float_repr\<close> is \<open>str\<close> of a float: the
  shortest decimal digit string that rounds back to the float (at most 17 digits are
  ever needed; of two candidates of the same length the nearer one is taken), written
  in positional notation when the decimal point falls within 16 digits to the right and
  4 to the left of the first digit, and in exponent notation otherwise.  \<open>format_f p\<close>
  is the format \<open>'{:.pf}'\<close>: the exact value rounded to \<open>p\<close> decimals, ties to even.
\<close>

function dec_digits :: "int \<Rightarrow> string" where
  "dec_digits n =
     (if n < 10 then [''0123456789'' ! nat n]
      else dec_digits (n div 10) @ [''0123456789'' ! nat (n mod 10)])"
  by pat_completeness auto
termination
  by (relation "measure nat") auto

declare dec_digits.simps [simp del]

definition dec_int :: "int \<Rightarrow> string" where
  "dec_int i = (if i < 0 then ''-'' @ dec_digits (- i) else dec_digits i)"

definition pow2 :: "int \<Rightarrow> rat" where
  "pow2 k = (if 0 \<le> k then 2 ^ nat k else 1 / 2 ^ nat (- k))"

definition pow10 :: "int \<Rightarrow> rat" where
  "pow10 k = (if 0 \<le> k then 10 ^ nat k else 1 / 10 ^ nat (- k))"

function bit_length :: "int \<Rightarrow> nat" where
  "bit_length n = (if n \<le> 0 then 0 else Suc (bit_length (n div 2)))"
  by pat_completeness auto
termination
  by (relation "measure nat") auto

declare bit_length.simps [simp del]

definition floor_log2 :: "rat \<Rightarrow> int" where
  "floor_log2 a =
     (let (n, d) = quotient_of a;
          k = int (bit_length n) - int (bit_length d)
      in if pow2 k \<le> a then k else k - 1)"

definition round_half_even :: "rat \<Rightarrow> int" where
  "round_half_even r =
     (let f = \<lfloor>r\<rfloor>; d = r - of_int f
      in if d < 1 / 2 then f else if 1 / 2 < d then f + 1 else if even f then f else f + 1)"

definition round_double :: "rat \<Rightarrow> rat" where
  "round_double q =
     (if q = 0 then 0
      else let a = \<bar>q\<bar>;
               e = max (floor_log2 a) (- 1022);
               m = round_half_even (a / pow2 (e - 52));
               sm = (if q < 0 then - m else m)
           in if 52 \<le> e then of_int (sm * 2 ^ nat (e - 52))
              else Fract sm (2 ^ nat (52 - e)))"

definition double_max :: rat where
  "double_max = (2 ^ 53 - 1) * 2 ^ 971"

definition floor_log10 :: "rat \<Rightarrow> int" where
  "floor_log10 a =
     (let g = (floor_log2 a * 30103) div 100000
      in if a < pow10 g then g - 1 else if a < pow10 (g + 1) then g else g + 1)"

fun shortest_digits :: "nat \<Rightarrow> nat \<Rightarrow> rat \<Rightarrow> int \<Rightarrow> int \<times> int" where
  "shortest_digits 0 n a k = (round_half_even (a / pow10 (k - int n)), k - int n)"
| "shortest_digits (Suc fuel) n a k =
     (let q = k - int n;
          sc = a / pow10 q;
          lo = \<lfloor>sc\<rfloor>;
          hi = lo + 1;
          okl = (round_double (of_int lo * pow10 q) = a);
          okh = (round_double (of_int hi * pow10 q) = a)
      in if okl \<and> okh then (if sc - of_int lo \<le> of_int hi - sc then lo else hi, q)
         else if okl then (lo, q)
         else if okh then (hi, q)
         else shortest_digits fuel (Suc n) a k)"

fun strip_zeros :: "nat \<Rightarrow> int \<times> int \<Rightarrow> int \<times> int" where
  "strip_zeros 0 dq = dq"
| "strip_zeros (Suc fuel) (d, q) = (if d \<noteq> 0 \<and> d mod 10 = 0 then strip_zeros fuel (d div 10, q + 1) else (d, q))"

definition float_repr :: "rat \<Rightarrow> string" where
  "float_repr x =
     (if x = 0 then ''0.0''
      else let a = \<bar>x\<bar>;
               k = floor_log10 a + 1;
               (d, q) = strip_zeros 17 (shortest_digits 16 1 a k);
               ds = dec_digits d;
               n = int (length ds);
               decpt = n + q;
               body =
                 (if decpt \<le> - 4 \<or> 16 < decpt
                  then [hd ds] @ (if tl ds = [] then [] else ''.'' @ tl ds) @ ''e''
                       @ (if decpt - 1 < 0 then ''-'' else ''+'')
                       @ (if \<bar>decpt - 1\<bar> < 10 then ''0'' else [])
                       @ dec_digits \<bar>decpt - 1\<bar>
                  else if decpt \<le> 0 then ''0.'' @ replicate (nat (- decpt)) (CHR ''0'') @ ds
                  else if n \<le> decpt then ds @ replicate (nat (decpt - n)) (CHR ''0'') @ ''.0''
                  else take (nat decpt) ds @ ''.'' @ drop (nat decpt) ds)
           in (if x < 0 then ''-'' else []) @ body)"

definition format_f :: "nat \<Rightarrow> rat \<Rightarrow> string" where
  "format_f p x =
     (let r = round_half_even (\<bar>x\<bar> * 10 ^ p);
          fs = dec_digits (r mod 10 ^ p)
      in (if x < 0 then ''-'' else []) @ dec_digits (r div 10 ^ p)
         @ (if p = 0 then [] else ''.'' @ replicate (p - length fs) (CHR ''0'') @ fs))"

definition float_trunc :: "rat \<Rightarrow> int" where
  "float_trunc x = (if 0 \<le> x then \<lfloor>x\<rfloor> else \<lceil>x\<rceil>)"



subsection \<open>\<open>float\<close> of a string\<close>

text \<open>
  \<open>float_of_str\<close> accepts an optional sign, digits and at most one decimal point, with
  a digit on at least one side of it, and raises ValueError on any other string made of
  the characters \<open>0123456789.+-*/()%^\<close>.  Strings with other characters (letters,
  underscores, spaces) are outside the model.
\<close>

definition is_digit :: "char \<Rightarrow> bool" where
  "is_digit c \<longleftrightarrow> c \<in> set ''0123456789''"

definition digits_val :: "string \<Rightarrow> int" where
  "digits_val ds = foldl (\<lambda>a c. 10 * a + (int (of_char c) - 48)) 0 ds"

definition decimal_val :: "string \<Rightarrow> string \<Rightarrow> rat" where
  "decimal_val ip fp = of_int (digits_val (ip @ fp)) / 10 ^ length fp"

definition float_of_str :: "string \<Rightarrow> pyexc + rat" where
  "float_of_str s =
     (if \<not> list_all (\<lambda>c. c \<in> set ''0123456789.+-*/()%^'') s then Inl OutsideModel
      else let neg = (s \<noteq> [] \<and> hd s = CHR ''-'');
               body = (if s \<noteq> [] \<and> (hd s = CHR ''-'' \<or> hd s = CHR ''+'') then tl s else s);
               ip = takeWhile is_digit body;
               r1 = dropWhile is_digit body;
               fp = (if r1 \<noteq> [] \<and> hd r1 = CHR ''.'' then takeWhile is_digit (tl r1) else []);
               r2 = (if r1 \<noteq> [] \<and> hd r1 = CHR ''.'' then dropWhile is_digit (tl r1) else r1)
           in if r2 \<noteq> [] \<or> ip @ fp = [] then Inl ValueError
              else let x = round_double (decimal_val ip fp)
                   in if double_max < x \<or> (neg \<and> x = 0) then Inl OutsideModel
                      else Inr (if neg then - x else x))"

subsection \<open>\<open>eval\<close> on arithmetic expressions\<close>

text \<open>
  The fragment: decimal integer and float literals without exponent, the binary
  operators \<open>+ - * / // % **\<close>, unary \<open>+\<close> and \<open>-\<close>, parentheses, and the call
  syntax \<open>f(x)\<close>, which parses and then raises TypeError because a number is not
  callable.  Integers are unbounded; \<open>/\<close> is true division and yields a float, also of
  two integers.  The parser follows the grammar of the language reference
  (sum, term, factor, power, primary, atom), one nonterminal per constructor of
  \<open>nonterm\<close>, and descends with a budget that is generous for the length of the input;
  an exhausted budget is reported as \<open>OutsideModel\<close>.  A string with any character
  other than \<open>0123456789.+-*/%()\<close> is outside the model, whatever else it holds.
  Limits of the interpreter (nesting depth, the bound on the digits of an integer) are
  not modelled.
\<close>

datatype tok = TNum pyval | TPlus | TMinus | TStar | TSlash | TDStar | TDSlash | TPercent
  | TLPar | TRPar

function tokenize :: "string \<Rightarrow> pyexc + tok list" where
  "tokenize [] = Inr []"
| "tokenize (c # cs) =
     (if is_digit c \<or> (c = CHR ''.'' \<and> cs \<noteq> [] \<and> is_digit (hd cs)) then
        (let ip = takeWhile is_digit (c # cs);
             r1 = dropWhile is_digit (c # cs);
             isf = (r1 \<noteq> [] \<and> hd r1 = CHR ''.'');
             fp = (if isf then takeWhile is_digit (tl r1) else []);
             r2 = (if isf then dropWhile is_digit (tl r1) else r1)
         in if \<not> isf \<and> 1 < length ip \<and> hd ip = CHR ''0'' \<and> digits_val ip \<noteq> 0
            then Inl SyntaxError
            else if isf \<and> double_max < round_double (decimal_val ip fp) then Inl OutsideModel
            else (case tokenize r2 of
                    Inl e \<Rightarrow> Inl e
                  | Inr ts \<Rightarrow>
                      Inr (TNum (if isf then PFloat (round_double (decimal_val ip fp))
                                 else PInt (digits_val ip)) # ts)))
      else if c = CHR ''*'' \<and> cs \<noteq> [] \<and> hd cs = CHR ''*'' then
        (case tokenize (tl cs) of Inl e \<Rightarrow> Inl e | Inr ts \<Rightarrow> Inr (TDStar # ts))
      else if c = CHR ''/'' \<and> cs \<noteq> [] \<and> hd cs = CHR ''/'' then
        (case tokenize (tl cs) of Inl e \<Rightarrow> Inl e | Inr ts \<Rightarrow> Inr (TDSlash # ts))
      else if c \<in> set ''+-*/%()'' then
        (case tokenize cs of
           Inl e \<Rightarrow> Inl e
         | Inr ts \<Rightarrow>
             Inr ((if c = CHR ''+'' then TPlus else if c = CHR ''-'' then TMinus
                   else if c = CHR ''*'' then TStar else if c = CHR ''/'' then TSlash
                   else if c = CHR ''%'' then TPercent else if c = CHR ''('' then TLPar
                   else TRPar) # ts))
      else Inl OutsideModel)"
  by pat_completeness auto
termination
proof (relation "measure length", goal_cases)
  case 1
  then show ?case by simp
next
  case (2 c cs ip r1 isf fp r2)
  have a: "length (dropWhile is_digit (tl (dropWhile is_digit (c # cs)))) \<le> length cs"
    using length_dropWhile_le[of is_digit "tl (dropWhile is_digit (c # cs))"]
          length_dropWhile_le[of is_digit "c # cs"]
    by (cases "dropWhile is_digit (c # cs)") auto
  have b: "is_digit c \<Longrightarrow> length (dropWhile is_digit (c # cs)) \<le> length cs"
    using length_dropWhile_le[of is_digit cs] by simp
  have c: "\<not> is_digit c \<Longrightarrow> c = CHR ''.'' \<Longrightarrow> dropWhile is_digit (c # cs) = c # cs" by simp
  from 2 show ?case using a b c by (auto split: if_splits)
next
  case (3 c cs)
  then show ?case by (cases cs) auto
next
  case (4 c cs)
  then show ?case by (cases cs) auto
next
  case (5 c cs)
  then show ?case by simp
qed

declare tokenize.simps [simp del]

datatype binop = Add | Sub | Mul | Div | FloorDiv | Mod | Pow

datatype expr = Num pyval | UPos expr | UNeg expr | BinOp binop expr expr
  | Call expr "expr option"

datatype nonterm = NSum | NSumRest expr | NTerm | NTermRest expr | NFactor | NPower
  | NCalls expr | NAtom

fun parse_nt :: "nat \<Rightarrow> nonterm \<Rightarrow> tok list \<Rightarrow> pyexc + expr \<times> tok list" where
  "parse_nt 0 nt ts = Inl OutsideModel"
| "parse_nt (Suc n) NSum ts =
     (case parse_nt n NTerm ts of Inl e \<Rightarrow> Inl e | Inr (l, r) \<Rightarrow> parse_nt n (NSumRest l) r)"
| "parse_nt (Suc n) (NSumRest l) ts =
     (if ts \<noteq> [] \<and> (hd ts = TPlus \<or> hd ts = TMinus) then
        (case parse_nt n NTerm (tl ts) of
           Inl e \<Rightarrow> Inl e
         | Inr (x, r) \<Rightarrow> parse_nt n (NSumRest (BinOp (if hd ts = TPlus then Add else Sub) l x)) r)
      else Inr (l, ts))"
| "parse_nt (Suc n) NTerm ts =
     (case parse_nt n NFactor ts of Inl e \<Rightarrow> Inl e | Inr (l, r) \<Rightarrow> parse_nt n (NTermRest l) r)"
| "parse_nt (Suc n) (NTermRest l) ts =
     (if ts \<noteq> [] \<and> (hd ts = TStar \<or> hd ts = TSlash \<or> hd ts = TDSlash \<or> hd ts = TPercent) then
        (case parse_nt n NFactor (tl ts) of
           Inl e \<Rightarrow> Inl e
         | Inr (x, r) \<Rightarrow>
             parse_nt n (NTermRest
                   (BinOp (if hd ts = TStar then Mul else if hd ts = TSlash then Div
                           else if hd ts = TDSlash then FloorDiv else Mod) l x)) r)
      else Inr (l, ts))"
| "parse_nt (Suc n) NFactor ts =
     (if ts \<noteq> [] \<and> (hd ts = TPlus \<or> hd ts = TMinus) then
        (case parse_nt n NFactor (tl ts) of
           Inl e \<Rightarrow> Inl e
         | Inr (x, r) \<Rightarrow> Inr (if hd ts = TPlus then UPos x else UNeg x, r))
      else parse_nt n NPower ts)"
| "parse_nt (Suc n) NPower ts =
     (case parse_nt n NAtom ts of
        Inl e \<Rightarrow> Inl e
      | Inr (a, r0) \<Rightarrow>
          (case parse_nt n (NCalls a) r0 of
             Inl e \<Rightarrow> Inl e
           | Inr (b, r) \<Rightarrow>
               if r \<noteq> [] \<and> hd r = TDStar then
                 (case parse_nt n NFactor (tl r) of
                    Inl e \<Rightarrow> Inl e
                  | Inr (x, r') \<Rightarrow> Inr (BinOp Pow b x, r'))
               else Inr (b, r)))"
| "parse_nt (Suc n) (NCalls a) ts =
     (if ts \<noteq> [] \<and> hd ts = TLPar then
        (if tl ts \<noteq> [] \<and> hd (tl ts) = TRPar then parse_nt n (NCalls (Call a None)) (tl (tl ts))
         else
           (case parse_nt n NSum (if tl ts \<noteq> [] \<and> (hd (tl ts) = TStar \<or> hd (tl ts) = TDStar)
                            then tl (tl ts) else tl ts) of
              Inl e \<Rightarrow> Inl e
            | Inr (x, r) \<Rightarrow>
                if r \<noteq> [] \<and> hd r = TRPar then parse_nt n (NCalls (Call a (Some x))) (tl r)
                else Inl SyntaxError))
      else Inr (a, ts))"
| "parse_nt (Suc n) NAtom ts =
     (if ts = [] then Inl SyntaxError
      else if hd ts = TLPar then
        (if tl ts \<noteq> [] \<and> hd (tl ts) = TRPar then Inl OutsideModel
         else
           (case parse_nt n NSum (tl ts) of
              Inl e \<Rightarrow> Inl e
            | Inr (x, r) \<Rightarrow>
                if r \<noteq> [] \<and> hd r = TRPar then Inr (x, tl r) else Inl SyntaxError))
      else (case hd ts of TNum v \<Rightarrow> Inr (Num v, tl ts) | _ \<Rightarrow> Inl SyntaxError))"

definition parse :: "tok list \<Rightarrow> pyexc + expr" where
  "parse ts =
     (case parse_nt (8 * length ts + 8) NSum ts of
        Inl e \<Rightarrow> Inl e
      | Inr (x, r) \<Rightarrow> if r = [] then Inr x else Inl SyntaxError)"

definition to_float :: "pyval \<Rightarrow> pyexc + rat" where
  "to_float v =
     (case v of
        PInt i \<Rightarrow>
          (let x = round_double (of_int i)
           in if double_max < \<bar>x\<bar> then Inl OverflowError else Inr x)
      | PFloat x \<Rightarrow> Inr x
      | PStr s \<Rightarrow> Inl OutsideModel)"

definition float_result :: "bool \<Rightarrow> rat \<Rightarrow> pyexc + pyval" where
  "float_result neg q =
     (let x = round_double q
      in if double_max < \<bar>x\<bar> \<or> (x = 0 \<and> neg) then Inl OutsideModel else Inr (PFloat x))"

definition float_arith :: "binop \<Rightarrow> pyval \<Rightarrow> pyval \<Rightarrow> pyexc + pyval" where
  "float_arith op a b =
     (if op \<noteq> Add \<and> op \<noteq> Sub \<and> op \<noteq> Mul \<and> op \<noteq> Div then Inl OutsideModel
      else
        (case to_float a of
           Inl e \<Rightarrow> Inl e
         | Inr x \<Rightarrow>
             (case to_float b of
                Inl e \<Rightarrow> Inl e
              | Inr y \<Rightarrow>
                  if op = Add then float_result False (x + y)
                  else if op = Sub then float_result False (x - y)
                  else if op = Mul then float_result ((x < 0) \<noteq> (y < 0)) (x * y)
                  else if y = 0 then Inl ZeroDivisionError
                  else float_result ((x < 0) \<noteq> (y < 0)) (x / y))))"

definition arith :: "binop \<Rightarrow> pyval \<Rightarrow> pyval \<Rightarrow> pyexc + pyval" where
  "arith op a b =
     (case (a, b) of
        (PInt i, PInt j) \<Rightarrow>
          (case op of
             Add \<Rightarrow> Inr (PInt (i + j))
           | Sub \<Rightarrow> Inr (PInt (i - j))
           | Mul \<Rightarrow> Inr (PInt (i * j))
           | Div \<Rightarrow>
               if j = 0 then Inl ZeroDivisionError
               else (let x = round_double (of_int i / of_int j)
                     in if double_max < \<bar>x\<bar> then Inl OverflowError
                        else if x = 0 \<and> (i < 0) \<noteq> (j < 0) then Inl OutsideModel
                        else Inr (PFloat x))
           | FloorDiv \<Rightarrow> if j = 0 then Inl ZeroDivisionError else Inr (PInt (i div j))
           | Mod \<Rightarrow> if j = 0 then Inl ZeroDivisionError else Inr (PInt (i mod j))
           | Pow \<Rightarrow>
               if 0 \<le> j then Inr (PInt (i ^ nat j))
               else if i = 0 then Inl ZeroDivisionError
               else Inl OutsideModel)
      | _ \<Rightarrow> float_arith op a b)"

fun eval_expr :: "expr \<Rightarrow> pyexc + pyval" where
  "eval_expr (Num v) = Inr v"
| "eval_expr (UPos x) = eval_expr x"
| "eval_expr (UNeg x) =
     (case eval_expr x of
        Inl e \<Rightarrow> Inl e
      | Inr (PInt i) \<Rightarrow> Inr (PInt (- i))
      | Inr (PFloat r) \<Rightarrow> if r = 0 then Inl OutsideModel else Inr (PFloat (- r))
      | Inr (PStr s) \<Rightarrow> Inl OutsideModel)"
| "eval_expr (BinOp op l r) =
     (case eval_expr l of
        Inl e \<Rightarrow> Inl e
      | Inr a \<Rightarrow> (case eval_expr r of Inl e \<Rightarrow> Inl e | Inr b \<Rightarrow> arith op a b))"
| "eval_expr (Call f None) =
     (case eval_expr f of Inl e \<Rightarrow> Inl e | Inr a \<Rightarrow> Inl TypeError)"
| "eval_expr (Call f (Some x)) =
     (case eval_expr f of
        Inl e \<Rightarrow> Inl e
      | Inr a \<Rightarrow> (case eval_expr x of Inl e \<Rightarrow> Inl e | Inr b \<Rightarrow> Inl TypeError))"

definition py_eval :: "string \<Rightarrow> pyexc + pyval" where
  "py_eval s =
     (if \<not> list_all (\<lambda>c. c \<in> set ''0123456789.+-*/%()'') s then Inl OutsideModel
      else
        (case tokenize s of
           Inl e \<Rightarrow> Inl e
         | Inr ts \<Rightarrow> (case parse ts of Inl e \<Rightarrow> Inl e | Inr x \<Rightarrow> eval_expr x)))"

text \<open>
  \<open>py_str\<close> is \<open>str\<close> of a value.  It is also the string that \<open>get\<close> returns from
  a display variable after \<open>set\<close> was called with a number; how the widget draws a
  float is not modelled.
\<close>

definition py_str :: "pyval \<Rightarrow> string" where
  "py_str v = (case v of PInt i \<Rightarrow> dec_int i | PFloat x \<Rightarrow> float_repr x | PStr s \<Rightarrow> s)"


section \<open>The calculator state and its event handlers\<close>

text \<open>
  The record holds the data attributes of \<open>CalcApp\<close>; the two display variables hold
  the string they were last set to.  A handler that can raise returns the exception that
  leaves it, if any, together with the state reached by then.  \<open>numberPressed\<close> takes
  \<open>str(value)\<close>.  The library logarithm is a parameter \<open>lg\<close> (\<open>lg True\<close> for
  \<open>math.log10\<close>, \<open>lg False\<close> for \<open>math.log\<close>); both raise ValueError outside the
  positive numbers.
\<close>

record calc =
  cumulativeInputDisplayString :: string
  cumulativeOperationDisplayString :: string
  cumulativeNumInputList :: "string list"
  lastCumulativeNumInputList :: "string list"
  cumulativeOperationList :: "string list"
  lastInputWasNum :: bool
  lastOperationWasEval :: bool
  skipAddingLastNumInputToOperation :: bool

definition init :: calc where
  "init =
     \<lparr>cumulativeInputDisplayString = ''0'',
      cumulativeOperationDisplayString = [],
      cumulativeNumInputList = [],
      lastCumulativeNumInputList = [],
      cumulativeOperationList = [],
      lastInputWasNum = False,
      lastOperationWasEval = False,
      skipAddingLastNumInputToOperation = False\<rparr>"

fun join :: "string \<Rightarrow> string list \<Rightarrow> string" where
  "join sep [] = []"
| "join sep [x] = x"
| "join sep (x # y # ys) = x @ sep @ join sep (y # ys)"

fun replace_pow :: "string \<Rightarrow> string" where
  "replace_pow (a # b # cs) =
     (if a = CHR ''*'' \<and> b = CHR ''*'' then CHR ''^'' # replace_pow cs
      else a # replace_pow (b # cs))"
| "replace_pow cs = cs"

definition roundToMaxDigits :: "pyval \<Rightarrow> pyexc + pyval" where
  "roundToMaxDigits currentResult =
     (case currentResult of
        PFloat x \<Rightarrow>
          if of_int \<lfloor>x\<rfloor> = x then Inr (PInt (float_trunc x))
          else (let numDigits = length (float_repr x)
                in if 9 < numDigits then
                     (let allowedDigits = 9 - int (length (dec_int (float_trunc x)))
                      in if allowedDigits < 0 then Inl ValueError
                         else Inr (PStr (format_f (nat allowedDigits) x)))
                   else Inr (PFloat x))
      | _ \<Rightarrow> Inr currentResult)"

definition clearAll :: "calc \<Rightarrow> calc" where
  "clearAll s =
     s\<lparr>cumulativeInputDisplayString := ''0'',
       cumulativeOperationDisplayString := [],
       cumulativeNumInputList := [],
       cumulativeOperationList := []\<rparr>"

definition clearLast :: "calc \<Rightarrow> calc" where
  "clearLast s =
     (if lastOperationWasEval s \<and> \<not> lastInputWasNum s then s
      else if lastInputWasNum s then
        (if 0 < length (cumulativeNumInputList s) then
           (let s1 = s\<lparr>cumulativeNumInputList := butlast (cumulativeNumInputList s)\<rparr>;
                s2 = (if length (cumulativeNumInputList s1) = 1
                         \<and> cumulativeNumInputList s1 ! 0 = ''-''
                      then s1\<lparr>cumulativeNumInputList := [],
                              cumulativeInputDisplayString := ''0''\<rparr>
                      else s1)
            in if 0 < length (cumulativeNumInputList s2)
               then s2\<lparr>cumulativeInputDisplayString := concat (cumulativeNumInputList s2)\<rparr>
               else s2\<lparr>cumulativeInputDisplayString := ''0''\<rparr>)
         else s)
      else if length (cumulativeOperationList s) = 0 then s
      else
        (let s1 = s\<lparr>cumulativeOperationList := butlast (cumulativeOperationList s)\<rparr>;
             s2 = s1\<lparr>cumulativeNumInputList := lastCumulativeNumInputList s1\<rparr>;
             s3 = s2\<lparr>skipAddingLastNumInputToOperation := True\<rparr>
         in s3\<lparr>cumulativeOperationDisplayString := join '' '' (cumulativeOperationList s3)\<rparr>))"

definition percentage :: "calc \<Rightarrow> pyexc option \<times> calc" where
  "percentage s =
     (if cumulativeNumInputList s \<noteq> [] then
        (case float_of_str (concat (cumulativeNumInputList s)) of
           Inl e \<Rightarrow> (Some e, s)
         | Inr currentNumInputFloat \<Rightarrow>
             (case float_result (currentNumInputFloat < 0) (currentNumInputFloat / 100) of
                Inl e \<Rightarrow> (Some e, s)
              | Inr currentPercentFloat \<Rightarrow>
                  (let s1 = s\<lparr>cumulativeNumInputList :=
                                 (cumulativeNumInputList s)[0 := py_str currentPercentFloat]\<rparr>
                   in (None, s1\<lparr>cumulativeInputDisplayString :=
                                    concat (cumulativeNumInputList s1)\<rparr>))))
      else (None, s))"

definition invert :: "calc \<Rightarrow> calc" where
  "invert s =
     (let currentNumInput = concat (cumulativeNumInputList s)
      in if currentNumInput \<noteq> [] then
           (let isPositive = isnumeric (currentNumInput ! 0);
                flippedNumInput =
                  (if isPositive then map (\<lambda>c. [c]) (''-'' @ currentNumInput)
                   else map (\<lambda>c. [c]) (drop 1 currentNumInput));
                s1 = s\<lparr>cumulativeNumInputList := flippedNumInput\<rparr>
            in s1\<lparr>cumulativeInputDisplayString := concat (cumulativeNumInputList s1)\<rparr>)
         else s)"

definition numberPressed :: "string \<Rightarrow> calc \<Rightarrow> calc" where
  "numberPressed val s =
     (let s1 = s\<lparr>cumulativeNumInputList := cumulativeNumInputList s @ [val]\<rparr>;
          cumulativeNumInputToDisplay = concat (cumulativeNumInputList s1);
          formattedDisplayString = replace_pow cumulativeNumInputToDisplay
      in s1\<lparr>cumulativeInputDisplayString := formattedDisplayString,
              lastInputWasNum := True\<rparr>)"

definition mathPressed ::
  "(string \<Rightarrow> pyexc + pyval) \<Rightarrow> string \<Rightarrow> calc \<Rightarrow> pyexc option \<times> calc" where
  "mathPressed eval val s =
     (if \<not> lastInputWasNum s \<and> \<not> lastOperationWasEval s
         \<and> concat (cumulativeNumInputList s) \<noteq> [] then
        (if cumulativeOperationList s = [] then (Some IndexError, s)
         else if last (cumulativeOperationList s) = val then (None, s)
         else
           (let s1 = clearLast s;
                s2 = s1\<lparr>skipAddingLastNumInputToOperation := False\<rparr>;
                s3 = s2\<lparr>cumulativeOperationList := cumulativeOperationList s2 @ [val]\<rparr>;
                s4 = s3\<lparr>cumulativeNumInputList := []\<rparr>
            in (None,
                s4\<lparr>cumulativeInputDisplayString := [],
                   cumulativeOperationDisplayString :=
                     join '' '' (cumulativeOperationList s4)\<rparr>)))
      else
        (let currentCumulativeNumInput = concat (cumulativeNumInputList s);
             s1 = (if \<not> skipAddingLastNumInputToOperation s
                   then s\<lparr>cumulativeOperationList :=
                            cumulativeOperationList s @ [currentCumulativeNumInput]\<rparr>
                   else s\<lparr>skipAddingLastNumInputToOperation := False\<rparr>);
             s2 = s1\<lparr>lastInputWasNum := False\<rparr>
         in if currentCumulativeNumInput \<noteq> [] then
              (if val \<noteq> ''='' then
                 (let s3 = s2\<lparr>cumulativeOperationList := cumulativeOperationList s2 @ [val]\<rparr>;
                      s4 = s3\<lparr>lastCumulativeNumInputList := cumulativeNumInputList s3\<rparr>;
                      s5 = s4\<lparr>cumulativeNumInputList := [], lastOperationWasEval := False\<rparr>
                  in (None,
                      s5\<lparr>cumulativeInputDisplayString := [],
                         cumulativeOperationDisplayString :=
                           join '' '' (cumulativeOperationList s5)\<rparr>))
               else
                 (let currentCumulativeOperation =
                        parseParentheses (concat (cumulativeOperationList s2))
                  in case eval currentCumulativeOperation of
                       Inl e \<Rightarrow>
                         if e = SyntaxError \<or> e = KeyError
                         then (None, s2\<lparr>cumulativeInputDisplayString := ''ERROR''\<rparr>)
                         else (Some e, s2)
                     | Inr currentResult \<Rightarrow>
                         (let s3 = s2\<lparr>lastOperationWasEval := True,
                                       cumulativeOperationList := [],
                                       cumulativeNumInputList := [py_str currentResult]\<rparr>
                          in case roundToMaxDigits currentResult of
                               Inl e \<Rightarrow> (Some e, s3)
                             | Inr shown \<Rightarrow>
                                 (None,
                                  s3\<lparr>cumulativeInputDisplayString := py_str shown,
                                     cumulativeOperationDisplayString :=
                                       replace_pow currentCumulativeOperation\<rparr>))))
            else (None, s2)))"

definition exponentiate :: "calc \<Rightarrow> calc" where
  "exponentiate s =
     (if cumulativeNumInputList s \<noteq> [] then
        (let s1 = s\<lparr>cumulativeNumInputList := cumulativeNumInputList s @ [''**'']\<rparr>;
             displayString = concat (cumulativeNumInputList s1);
             formattedDisplayString = replace_pow displayString
         in s1\<lparr>cumulativeInputDisplayString := formattedDisplayString\<rparr>)
      else s)"

definition square ::
  "(string \<Rightarrow> pyexc + pyval) \<Rightarrow> calc \<Rightarrow> pyexc option \<times> calc" where
  "square eval s =
     (if cumulativeNumInputList s \<noteq> [] then
        (let cumulativeInputStr = concat (cumulativeNumInputList s);
             s1 = s\<lparr>cumulativeNumInputList :=
                      cumulativeNumInputList s @ [''*'' @ cumulativeInputStr]\<rparr>
         in mathPressed eval ''='' s1)
      else (None, s))"

definition math_log :: "(bool \<Rightarrow> rat \<Rightarrow> rat) \<Rightarrow> bool \<Rightarrow> rat \<Rightarrow> pyexc + pyval" where
  "math_log lg base10 x = (if x \<le> 0 then Inl ValueError else Inr (PFloat (lg base10 x)))"

definition logarithms ::
  "(bool \<Rightarrow> rat \<Rightarrow> rat) \<Rightarrow> bool \<Rightarrow> calc \<Rightarrow> pyexc option \<times> calc" where
  "logarithms lg base10 s =
     (if cumulativeNumInputList s \<noteq> [] then
        (let attempt =
               (case float_of_str (concat (cumulativeNumInputList s)) of
                  Inl e \<Rightarrow> Inl e
                | Inr currentNumInputFloat \<Rightarrow>
                    (case math_log lg base10 currentNumInputFloat of
                       Inl e \<Rightarrow> Inl e
                     | Inr v \<Rightarrow> roundToMaxDigits v))
         in case attempt of
              Inl e \<Rightarrow>
                if e = SyntaxError \<or> e = KeyError \<or> e = ValueError
                then (None, s\<lparr>cumulativeInputDisplayString := ''ERROR''\<rparr>)
                else (Some e, s)
            | Inr logResult \<Rightarrow>
                (let s1 = s\<lparr>cumulativeNumInputList :=
                               (cumulativeNumInputList s)[0 := py_str logResult]\<rparr>
                 in (None, s1\<lparr>cumulativeInputDisplayString := py_str logResult\<rparr>)))
      else (None, s))"


section \<open>Definitions the properties are stated with\<close>

text \<open>
  Two scans of a string: \<open>insertAfterClose\<close> puts \<open>*\<close> after each \<open>)\<close> that stands
  between two numeric characters, \<open>insertBeforeOpen\<close> puts \<open>*\<close> before each \<open>(\<close> that
  stands between two numeric characters; the flag says whether the previous character
  is numeric.  \<open>closeFree\<close> and \<open>openFree\<close> say that no such parenthesis is left.
  \<open>posAux\<close> lists the positions of a character, counted from an offset.
  \<open>grammar_char\<close> is the character set of the token grammar of the specification,
  \<open>pendingExpression\<close> the string that Equals hands to the evaluator, and
  \<open>log10_of_9\<close> the double 0.9542425094393249 that \<open>math.log10(9.0)\<close> returns.
  \<open>int_str_ok\<close> holds of a value that \<open>str\<close> converts: the interpreter refuses an
  integer of more than 4300 digits, and the properties of an evaluated result are stated
  for values within that bound.
\<close>

fun insertAfterClose :: "bool \<Rightarrow> string \<Rightarrow> string" where
  "insertAfterClose pn [] = []"
| "insertAfterClose pn (c # cs) =
     (if c = CHR '')'' \<and> pn \<and> cs \<noteq> [] \<and> isnumeric (hd cs)
      then c # CHR ''*'' # insertAfterClose False cs
      else c # insertAfterClose (isnumeric c) cs)"

fun insertBeforeOpen :: "bool \<Rightarrow> string \<Rightarrow> string" where
  "insertBeforeOpen pn [] = []"
| "insertBeforeOpen pn (c # cs) =
     (if c = CHR ''('' \<and> pn \<and> cs \<noteq> [] \<and> isnumeric (hd cs)
      then CHR ''*'' # c # insertBeforeOpen False cs
      else c # insertBeforeOpen (isnumeric c) cs)"


fun posAux :: "char \<Rightarrow> nat \<Rightarrow> string \<Rightarrow> nat list" where
  "posAux p k [] = []"
| "posAux p k (c # cs) = (if c = p then [k] else []) @ posAux p (Suc k) cs"

fun closeFree :: "bool \<Rightarrow> string \<Rightarrow> bool" where
  "closeFree pn [] = True"
| "closeFree pn (c # cs) =
     (\<not> (c = CHR '')'' \<and> pn \<and> cs \<noteq> [] \<and> isnumeric (hd cs)) \<and> closeFree (isnumeric c) cs)"

fun openFree :: "bool \<Rightarrow> string \<Rightarrow> bool" where
  "openFree pn [] = True"
| "openFree pn (c # cs) =
     (\<not> (c = CHR ''('' \<and> pn \<and> cs \<noteq> [] \<and> isnumeric (hd cs)) \<and> openFree (isnumeric c) cs)"

definition grammar_char :: "char \<Rightarrow> bool" where
  "grammar_char c \<longleftrightarrow> c \<in> set ''0123456789.+-*/()''"

definition pendingExpression :: "calc \<Rightarrow> string" where
  "pendingExpression s =
     parseParentheses
       (concat (if skipAddingLastNumInputToOperation s then cumulativeOperationList s
                else cumulativeOperationList s @ [concat (cumulativeNumInputList s)]))"

definition int_str_ok :: "pyval \<Rightarrow> bool" where
  "int_str_ok v = (case v of PInt i \<Rightarrow> length (dec_digits \<bar>i\<bar>) \<le> 4300 | _ \<Rightarrow> True)"

definition log10_of_9 :: rat where
  "log10_of_9 = round_double (9542425094393249 / 10 ^ 16)"


section \<open>The normalizer as two scans\<close>

lemma filter_upt_posAux:
  "filter (\<lambda>pos. (pre @ s) ! pos = p) [length pre..<length pre + length s] = posAux p (length pre) s"
proof (induction s arbitrary: pre)
  case Nil
  then show ?case by simp
next
  case (Cons c cs)
  have split: "[length pre..<length pre + length (c # cs)]
      = length pre # [length (pre @ [c])..<length (pre @ [c]) + length cs]"
    using upt_conv_Cons[of "length pre" "length pre + length (c # cs)"] by (simp del: upt_Suc)
  have app: "pre @ c # cs = (pre @ [c]) @ cs" by simp
  have hd: "(pre @ c # cs) ! length pre = c" by simp
  have "filter (\<lambda>pos. (pre @ c # cs) ! pos = p) [length pre..<length pre + length (c # cs)]
      = (if c = p then [length pre] else [])
        @ filter (\<lambda>pos. ((pre @ [c]) @ cs) ! pos = p) [length (pre @ [c])..<length (pre @ [c]) + length cs]"
    unfolding split unfolding app[symmetric] using hd by simp
  also have "\<dots> = (if c = p then [length pre] else []) @ posAux p (length (pre @ [c])) cs"
    unfolding Cons.IH[of "pre @ [c]"] ..
  finally show ?case by simp
qed

lemma parenthPositions_posAux: "parenthPositions p s = posAux p 0 s"
  using filter_upt_posAux[of "[]" s p] by (simp add: parenthPositions_def)

lemma map_Suc_posAux: "map Suc (posAux p k s) = posAux p (Suc k) s"
  by (induction s arbitrary: k) auto

lemma innerLoop_close:
  "innerLoop False (posAux (CHR '')'') (length pre) rest) (pre @ rest)
   = pre @ insertAfterClose (pre \<noteq> [] \<and> isnumeric (last pre)) rest"
proof (induction rest arbitrary: pre)
  case Nil
  then show ?case by simp
next
  case (Cons c cs)
  have app: "pre @ c # cs = (pre @ [c]) @ cs" by simp
  show ?case
  proof (cases "c = CHR '')''")
    case False
    have "innerLoop False (posAux (CHR '')'') (length pre) (c # cs)) (pre @ c # cs)
        = innerLoop False (posAux (CHR '')'') (length (pre @ [c])) cs) ((pre @ [c]) @ cs)"
      using False by simp
    also have "\<dots> = (pre @ [c]) @ insertAfterClose (isnumeric c) cs"
      unfolding Cons.IH[of "pre @ [c]"] by simp
    finally show ?thesis using False by simp
  next
    case True
    let ?cond = "pre \<noteq> [] \<and> isnumeric (last pre) \<and> cs \<noteq> [] \<and> isnumeric (hd cs)"
    have c1: "(length pre > 0 \<and> isnumeric ((pre @ c # cs) ! (length pre - 1))
         \<and> length pre \<noteq> length (pre @ c # cs) - 1 \<and> isnumeric ((pre @ c # cs) ! (length pre + 1)))
        \<longleftrightarrow> ?cond"
      by (cases cs) (auto simp: nth_append last_conv_nth)
    show ?thesis
    proof (cases ?cond)
      case False
      from False c1 have nc: "\<not> (length pre > 0 \<and> isnumeric ((pre @ c # cs) ! (length pre - 1))
         \<and> length pre \<noteq> length (pre @ c # cs) - 1 \<and> isnumeric ((pre @ c # cs) ! (length pre + 1)))"
        by blast
      have "innerLoop False (posAux (CHR '')'') (length pre) (c # cs)) (pre @ c # cs)
        = innerLoop False (posAux (CHR '')'') (length (pre @ [c])) cs) ((pre @ [c]) @ cs)"
        using True nc by auto
      also have "\<dots> = (pre @ [c]) @ insertAfterClose (isnumeric c) cs"
        unfolding Cons.IH[of "pre @ [c]"] by simp
      finally show ?thesis using True False by auto
    next
      case cond: True
      from cond c1 have yc: "length pre > 0 \<and> isnumeric ((pre @ c # cs) ! (length pre - 1))
         \<and> length pre \<noteq> length (pre @ c # cs) - 1 \<and> isnumeric ((pre @ c # cs) ! (length pre + 1))"
        by blast
      have "innerLoop False (posAux (CHR '')'') (length pre) (c # cs)) (pre @ c # cs)
        = innerLoop False (posAux (CHR '')'') (length (pre @ [c, CHR ''*''])) cs) ((pre @ [c, CHR ''*'']) @ cs)"
        using True yc by (auto simp: map_Suc_posAux)
      also have "\<dots> = (pre @ [c, CHR ''*'']) @ insertAfterClose False cs"
        unfolding Cons.IH[of "pre @ [c, CHR ''*'']"] by (simp add: isnumeric_def)
      finally show ?thesis using True cond by simp
    qed
  qed
qed


lemma isnumeric_syms [simp]:
  "\<not> isnumeric (CHR ''*'')" "\<not> isnumeric (CHR ''('')" "\<not> isnumeric (CHR '')'')"
  by (simp_all add: isnumeric_def)

lemma innerLoop_open:
  "innerLoop True (posAux (CHR ''('') (length pre) rest) (pre @ rest)
   = pre @ insertBeforeOpen (pre \<noteq> [] \<and> isnumeric (last pre)) rest"
proof (induction rest arbitrary: pre)
  case Nil
  then show ?case by simp
next
  case (Cons c cs)
  show ?case
  proof (cases "c = CHR ''(''")
    case False
    have "innerLoop True (posAux (CHR ''('') (length pre) (c # cs)) (pre @ c # cs)
        = innerLoop True (posAux (CHR ''('') (length (pre @ [c])) cs) ((pre @ [c]) @ cs)"
      using False by simp
    also have "\<dots> = (pre @ [c]) @ insertBeforeOpen (isnumeric c) cs"
      unfolding Cons.IH[of "pre @ [c]"] by simp
    finally show ?thesis using False by simp
  next
    case True
    let ?cond = "pre \<noteq> [] \<and> isnumeric (last pre) \<and> cs \<noteq> [] \<and> isnumeric (hd cs)"
    have c1: "(length pre > 0 \<and> isnumeric ((pre @ c # cs) ! (length pre - 1))
         \<and> length pre \<noteq> length (pre @ c # cs) - 1 \<and> isnumeric ((pre @ c # cs) ! (length pre + 1)))
        \<longleftrightarrow> ?cond"
      by (cases cs) (auto simp: nth_append last_conv_nth)
    show ?thesis
    proof (cases ?cond)
      case False
      from False c1 have nc: "\<not> (length pre > 0 \<and> isnumeric ((pre @ c # cs) ! (length pre - 1))
         \<and> length pre \<noteq> length (pre @ c # cs) - 1 \<and> isnumeric ((pre @ c # cs) ! (length pre + 1)))"
        by blast
      have "innerLoop True (posAux (CHR ''('') (length pre) (c # cs)) (pre @ c # cs)
        = innerLoop True (posAux (CHR ''('') (length (pre @ [c])) cs) ((pre @ [c]) @ cs)"
        using True nc by auto
      also have "\<dots> = (pre @ [c]) @ insertBeforeOpen (isnumeric c) cs"
        unfolding Cons.IH[of "pre @ [c]"] by simp
      finally show ?thesis using True False by auto
    next
      case cond: True
      from cond c1 have yc: "length pre > 0 \<and> isnumeric ((pre @ c # cs) ! (length pre - 1))
         \<and> length pre \<noteq> length (pre @ c # cs) - 1 \<and> isnumeric ((pre @ c # cs) ! (length pre + 1))"
        by blast
      have "innerLoop True (posAux (CHR ''('') (length pre) (c # cs)) (pre @ c # cs)
        = innerLoop True (posAux (CHR ''('') (length (pre @ [CHR ''*'', c])) cs) ((pre @ [CHR ''*'', c]) @ cs)"
        using True yc by (auto simp: map_Suc_posAux)
      also have "\<dots> = (pre @ [CHR ''*'', c]) @ insertBeforeOpen False cs"
        unfolding Cons.IH[of "pre @ [CHR ''*'', c]"] using True by simp
      finally show ?thesis using True cond by simp
    qed
  qed
qed

lemma parsePass_close: "parsePass False s = insertAfterClose False s"
  using innerLoop_close[of "[]" s] by (simp add: parsePass_def parenthPositions_posAux)

lemma parsePass_open: "parsePass True s = insertBeforeOpen False s"
  using innerLoop_open[of "[]" s] by (simp add: parsePass_def parenthPositions_posAux)

lemma parseParentheses_scan:
  "parseParentheses s = insertBeforeOpen False (insertAfterClose False s)"
  by (simp add: parseParentheses_def parsePass_close parsePass_open)

lemma insertAfterClose_id: "closeFree pn s \<Longrightarrow> insertAfterClose pn s = s"
  by (induction s arbitrary: pn) auto

lemma insertBeforeOpen_id: "openFree pn s \<Longrightarrow> insertBeforeOpen pn s = s"
  by (induction s arbitrary: pn) auto

lemma insertAfterClose_hd: "insertAfterClose pn s \<noteq> [] \<longleftrightarrow> s \<noteq> []" "hd (insertAfterClose pn s) = hd s"
  by (cases s; simp)+

lemma insertBeforeOpen_hd:
  "insertBeforeOpen pn s \<noteq> [] \<longleftrightarrow> s \<noteq> []"
  "isnumeric (hd (insertBeforeOpen pn s)) \<Longrightarrow> s \<noteq> [] \<Longrightarrow> isnumeric (hd s)"
  by (cases s; simp split: if_splits)+

lemma closeFree_insertAfterClose: "closeFree pn (insertAfterClose pn s)"
  by (induction s arbitrary: pn) (auto simp: insertAfterClose_hd)

lemma openFree_insertBeforeOpen: "openFree pn (insertBeforeOpen pn s)"
proof (induction s arbitrary: pn)
  case Nil
  then show ?case by simp
next
  case (Cons c cs)
  show ?case
    using Cons.IH[of False] Cons.IH[of "isnumeric c"] insertBeforeOpen_hd[of "isnumeric c" cs]
    by (cases cs) (auto split: if_splits)
qed

lemma closeFree_insertBeforeOpen: "closeFree pn s \<Longrightarrow> closeFree pn (insertBeforeOpen pn s)"
proof (induction s arbitrary: pn)
  case Nil
  then show ?case by simp
next
  case (Cons c cs)
  show ?case
    using Cons.prems Cons.IH[of False] Cons.IH[of "isnumeric c"] insertBeforeOpen_hd[of "isnumeric c" cs]
    by (cases cs) (auto split: if_splits)
qed


section \<open>Evaluation on Equals\<close>

lemma mathPressed_equals_unfold:
  assumes "concat (cumulativeNumInputList s) \<noteq> []"
    and "lastInputWasNum s \<or> lastOperationWasEval s"
  shows "mathPressed ev ''='' s =
     (let s2 = (if \<not> skipAddingLastNumInputToOperation s
                then s\<lparr>cumulativeOperationList :=
                         cumulativeOperationList s @ [concat (cumulativeNumInputList s)]\<rparr>
                else s\<lparr>skipAddingLastNumInputToOperation := False\<rparr>)\<lparr>lastInputWasNum := False\<rparr>
      in case ev (pendingExpression s) of
           Inl e \<Rightarrow>
             if e = SyntaxError \<or> e = KeyError
             then (None, s2\<lparr>cumulativeInputDisplayString := ''ERROR''\<rparr>)
             else (Some e, s2)
         | Inr r \<Rightarrow>
             (let s3 = s2\<lparr>lastOperationWasEval := True, cumulativeOperationList := [],
                           cumulativeNumInputList := [py_str r]\<rparr>
              in case roundToMaxDigits r of
                   Inl e \<Rightarrow> (Some e, s3)
                 | Inr shown \<Rightarrow>
                     (None,
                      s3\<lparr>cumulativeInputDisplayString := py_str shown,
                         cumulativeOperationDisplayString :=
                           replace_pow (pendingExpression s)\<rparr>)))"
proof -
  have g: "(\<not> lastInputWasNum s \<and> \<not> lastOperationWasEval s
             \<and> concat (cumulativeNumInputList s) \<noteq> []) = False"
    using assms(2) by blast
  have c: "(concat (cumulativeNumInputList s) \<noteq> []) = True"
    using assms(1) by blast
  show ?thesis
    apply (simp only: mathPressed_def g if_False)
    apply (simp only: Let_def c if_True)
    apply (cases "skipAddingLastNumInputToOperation s")
     apply (simp_all add: pendingExpression_def del: concat_eq_Nil_conv cong: sum.case_cong if_cong)
    done
qed

lemma typed_7_percent_2:
  "mathPressed py_eval ''=''
     (numberPressed ''2'' (numberPressed ''%'' (numberPressed ''7'' init)))
   = (None,
      \<lparr>cumulativeInputDisplayString = ''1'',
       cumulativeOperationDisplayString = ''7%2'',
       cumulativeNumInputList = [''1''],
       lastCumulativeNumInputList = [],
       cumulativeOperationList = [],
       lastInputWasNum = False,
       lastOperationWasEval = True,
       skipAddingLastNumInputToOperation = False\<rparr>)"
  by code_simp

text \<open>
  Claim C1 (as stated: every string with a character outside the grammar of digits,
  decimal point, \<open>+ - * / **\<close> and parentheses is rejected with an error).  The string
  \<open>7%2\<close> holds the character \<open>%\<close>, which is outside that grammar; the evaluator of
  the source, Python's \<open>eval\<close>, computes 1 from it and the calculator shows 1.
\<close>

theorem eval_accepts_modulo_counterexample:
  "\<not> grammar_char (CHR ''%'')
   \<and> CHR ''%'' \<in> set ''7%2''
   \<and> py_eval ''7%2'' = Inr (PInt 1)
   \<and> fst (mathPressed py_eval ''=''
        (numberPressed ''2'' (numberPressed ''%'' (numberPressed ''7'' init)))) = None
   \<and> cumulativeInputDisplayString (snd (mathPressed py_eval ''=''
        (numberPressed ''2'' (numberPressed ''%'' (numberPressed ''7'' init))))) = ''1''"
proof -
  have "py_eval ''7%2'' = Inr (PInt 1)" by code_simp
  then show ?thesis by (simp add: typed_7_percent_2 grammar_char_def)
qed

text \<open>
  Claim C1, amended.  When Equals is pressed on a pending number, the normalized
  expression is handed to the evaluator and no character of it is inspected.  The input
  is rejected, with the input display set to the error sentinel and no exception
  leaving the handler, when the evaluator raises SyntaxError or KeyError; and whenever
  the evaluator returns a value, whatever characters the string holds, that value
  becomes the number fragment and the operation list is emptied.
\<close>

theorem equals_defers_to_evaluator:
  assumes "concat (cumulativeNumInputList s) \<noteq> []"
    and "lastInputWasNum s \<or> lastOperationWasEval s"
  shows "(ev (pendingExpression s) = Inl SyntaxError \<or> ev (pendingExpression s) = Inl KeyError
            \<longrightarrow> fst (mathPressed ev ''='' s) = None
                \<and> cumulativeInputDisplayString (snd (mathPressed ev ''='' s)) = ''ERROR''
                \<and> cumulativeNumInputList (snd (mathPressed ev ''='' s)) = cumulativeNumInputList s)
       \<and> (\<forall>r. ev (pendingExpression s) = Inr r \<and> int_str_ok r
            \<longrightarrow> cumulativeNumInputList (snd (mathPressed ev ''='' s)) = [py_str r]
                \<and> cumulativeOperationList (snd (mathPressed ev ''='' s)) = [])"
  unfolding mathPressed_equals_unfold[OF assms]
  by (auto simp: Let_def split: sum.splits)

theorem equals_defers_to_evaluator_witness:
  "concat (cumulativeNumInputList (exponentiate (numberPressed ''5'' init))) \<noteq> []
   \<and> lastInputWasNum (exponentiate (numberPressed ''5'' init))
   \<and> py_eval (pendingExpression (exponentiate (numberPressed ''5'' init))) = Inl SyntaxError
   \<and> fst (mathPressed py_eval ''='' (exponentiate (numberPressed ''5'' init))) = None
   \<and> cumulativeInputDisplayString
        (snd (mathPressed py_eval ''='' (exponentiate (numberPressed ''5'' init)))) = ''ERROR''
   \<and> py_eval (pendingExpression
        (numberPressed ''2'' (numberPressed ''%'' (numberPressed ''7'' init)))) = Inr (PInt 1)
   \<and> int_str_ok (PInt 1)
   \<and> cumulativeNumInputList (snd (mathPressed py_eval ''=''
        (numberPressed ''2'' (numberPressed ''%'' (numberPressed ''7'' init))))) = [''1'']"
proof -
  let ?s = "exponentiate (numberPressed ''5'' init)"
  let ?t = "numberPressed ''2'' (numberPressed ''%'' (numberPressed ''7'' init))"
  have a: "concat (cumulativeNumInputList ?s) \<noteq> []" by code_simp
  have b: "lastInputWasNum ?s" by code_simp
  have c: "py_eval (pendingExpression ?s) = Inl SyntaxError" by code_simp
  have a': "concat (cumulativeNumInputList ?t) \<noteq> []" by code_simp
  have b': "lastInputWasNum ?t" by code_simp
  have c': "py_eval (pendingExpression ?t) = Inr (PInt 1)" by code_simp
  have d': "int_str_ok (PInt 1)" by code_simp
  have e': "py_str (PInt 1) = ''1''" by code_simp
  from equals_defers_to_evaluator [of ?s py_eval, OF a] b c
  have first: "fst (mathPressed py_eval ''='' ?s) = None
      \<and> cumulativeInputDisplayString (snd (mathPressed py_eval ''='' ?s)) = ''ERROR''"
    by blast
  from equals_defers_to_evaluator [of ?t py_eval, OF a'] b' c' d'
  have "cumulativeNumInputList (snd (mathPressed py_eval ''='' ?t)) = [py_str (PInt 1)]"
    by blast
  then show ?thesis using first a b c c' d' e' by simp
qed

text \<open>
  Claim C2 (division by zero sets the input display to the error sentinel).  After the
  digit 5, the operator \<open>/\<close>, the digit 0 and Equals, the evaluator raises
  ZeroDivisionError; the handler of the source catches SyntaxError and KeyError only, so
  the exception leaves \<open>mathPressed\<close>, the input display still shows the typed 0, and the
  operation list holds the three committed tokens.
\<close>

theorem division_by_zero_escapes_handler:
  "mathPressed py_eval ''=''
     (numberPressed ''0'' (snd (mathPressed py_eval ''/'' (numberPressed ''5'' init))))
   = (Some ZeroDivisionError,
      \<lparr>cumulativeInputDisplayString = ''0'',
       cumulativeOperationDisplayString = ''5 /'',
       cumulativeNumInputList = [''0''],
       lastCumulativeNumInputList = [''5''],
       cumulativeOperationList = [''5'', ''/'', ''0''],
       lastInputWasNum = False,
       lastOperationWasEval = False,
       skipAddingLastNumInputToOperation = False\<rparr>)"
  by code_simp

section \<open>Consecutive operators\<close>

text \<open>
  Claim C3 (a repeated operator is a no-op, a different operator replaces the last one).
  After the digit 5 and the operator \<open>+\<close> the number fragment is empty, so the guard of
  the replacement branch fails: a second \<open>+\<close>, and likewise a \<open>-\<close>, appends the empty
  string to the operation list and replaces nothing.
\<close>

theorem second_operator_appends_empty_token:
  "cumulativeOperationList (snd (mathPressed py_eval ''+'' (numberPressed ''5'' init)))
     = [''5'', ''+'']
   \<and> cumulativeOperationList
        (snd (mathPressed py_eval ''+''
           (snd (mathPressed py_eval ''+'' (numberPressed ''5'' init)))))
     = [''5'', ''+'', '''']
   \<and> cumulativeOperationList
        (snd (mathPressed py_eval ''-''
           (snd (mathPressed py_eval ''+'' (numberPressed ''5'' init)))))
     = [''5'', ''+'', '''']"
  by code_simp

section \<open>Normalization\<close>

text \<open>
  Claim C4 (a multiplication sign is inserted before every \<open>(\<close> with a numeric
  character on its left and after every \<open>)\<close> with a numeric character on its right, so
  that \<open>(3)(4)\<close> becomes \<open>(3)*(4)\<close> and evaluates to 12).  The source inserts only at
  a parenthesis with a numeric character on both its sides: it leaves \<open>(3)(4)\<close> as it
  is, the evaluator raises TypeError on it, and the exception leaves \<open>mathPressed\<close>.
\<close>

theorem adjacent_groups_left_unmultiplied:
  "parseParentheses ''(3)(4)'' = ''(3)(4)''
   \<and> py_eval (parseParentheses ''(3)(4)'') = Inl TypeError
   \<and> mathPressed py_eval ''=''
        (numberPressed '')'' (numberPressed ''4'' (numberPressed ''(''
          (numberPressed '')'' (numberPressed ''3'' (numberPressed ''('' init))))))
      = (Some TypeError,
         \<lparr>cumulativeInputDisplayString = ''(3)(4)'',
          cumulativeOperationDisplayString = [],
          cumulativeNumInputList = [''('', ''3'', '')'', ''('', ''4'', '')''],
          lastCumulativeNumInputList = [],
          cumulativeOperationList = [''(3)(4)''],
          lastInputWasNum = False,
          lastOperationWasEval = False,
          skipAddingLastNumInputToOperation = False\<rparr>)"
  by code_simp

text \<open>
  Claim C5.  The normalizer is idempotent: normalizing an already normalized string
  changes nothing, for every input string.
\<close>

theorem parseParentheses_idempotent:
  "parseParentheses (parseParentheses x) = parseParentheses x"
proof -
  let ?y = "insertBeforeOpen False (insertAfterClose False x)"
  have "closeFree False ?y"
    by (rule closeFree_insertBeforeOpen) (rule closeFree_insertAfterClose)
  then have "insertAfterClose False ?y = ?y" by (rule insertAfterClose_id)
  moreover have "insertBeforeOpen False ?y = ?y"
    by (rule insertBeforeOpen_id) (rule openFree_insertBeforeOpen)
  ultimately show ?thesis by (simp add: parseParentheses_scan)
qed

theorem parseParentheses_idempotent_witness:
  "parseParentheses (parseParentheses ''2(3)2'') = parseParentheses ''2(3)2''"
  using parseParentheses_idempotent [of "''2(3)2''"] by simp

section \<open>Operators and results\<close>

text \<open>
  Claim C6 (an operator pressed with nothing typed and nothing committed changes no
  state).  In the initial state the press appends the empty string to the operation list.
\<close>

theorem operator_on_empty_input_appends_token:
  "mathPressed py_eval ''+'' init = (None, init\<lparr>cumulativeOperationList := ['''']\<rparr>)"
  by code_simp






section \<open>Unary operations and formatting\<close>

text \<open>
  Claim C8 (Percent replaces the fragment by its value divided by 100).  The source
  overwrites only the first element of the fragment list: after the digits 1 and 2 the
  list is \<open>['1', '2']\<close>, Percent computes 0.12 and stores it over \<open>'1'\<close>, and the
  fragment reads \<open>0.122\<close>.
\<close>

theorem percentage_keeps_later_digits:
  "percentage (numberPressed ''2'' (numberPressed ''1'' init))
   = (None,
      \<lparr>cumulativeInputDisplayString = ''0.122'',
       cumulativeOperationDisplayString = [],
       cumulativeNumInputList = [''0.12'', ''2''],
       lastCumulativeNumInputList = [],
       cumulativeOperationList = [],
       lastInputWasNum = True,
       lastOperationWasEval = False,
       skipAddingLastNumInputToOperation = False\<rparr>)"
  by code_simp

lemma digit_nth_not_dot: "k < 10 \<Longrightarrow> ''0123456789'' ! k \<noteq> CHR ''.''"
proof -
  assume "k < 10"
  then have "''0123456789'' ! k \<in> set ''0123456789''" by (intro nth_mem) simp
  then show ?thesis by auto
qed

lemma dec_digits_no_dot: "CHR ''.'' \<notin> set (dec_digits n)"
proof (induction n rule: dec_digits.induct)
  case (1 n)
  show ?case
  proof (cases "n < 10")
    case True
    then have "nat n < 10" by simp
    then show ?thesis using True digit_nth_not_dot[of "nat n"]
      by (subst dec_digits.simps) simp
  next
    case False
    have "nat (n mod 10) < 10" by simp
    then show ?thesis using False 1 digit_nth_not_dot[of "nat (n mod 10)"]
      by (subst dec_digits.simps) simp
  qed
qed

lemma dec_digits_length: "0 < p \<Longrightarrow> n < 10 ^ p \<Longrightarrow> length (dec_digits n) \<le> p"
proof (induction p arbitrary: n)
  case 0
  then show ?case by simp
next
  case (Suc p)
  show ?case
  proof (cases "n < 10")
    case True
    then show ?thesis by (subst dec_digits.simps) simp
  next
    case False
    then have p0: "0 < p" using Suc.prems(2) by (cases p) auto
    have "n div 10 < 10 ^ p" using Suc.prems(2) by simp
    from Suc.IH[OF p0 this] show ?thesis using False
      by (subst dec_digits.simps) simp
  qed
qed

lemma format_f_fraction:
  assumes "0 < p"
  shows "\<exists>ip fp. format_f p x = ip @ ''.'' @ fp \<and> length fp = p \<and> CHR ''.'' \<notin> set ip"
proof -
  let ?r = "round_half_even (\<bar>x\<bar> * 10 ^ p)"
  let ?fs = "dec_digits (?r mod 10 ^ p)"
  let ?ip = "(if x < 0 then ''-'' else []) @ dec_digits (?r div 10 ^ p)"
  let ?fp = "replicate (p - length ?fs) (CHR ''0'') @ ?fs"
  have "?r mod 10 ^ p < 10 ^ p" by simp
  then have "length ?fs \<le> p" using assms by (rule dec_digits_length[rotated])
  then have "length ?fp = p" by simp
  moreover have "CHR ''.'' \<notin> set ?ip" using dec_digits_no_dot by simp
  moreover have "format_f p x = ?ip @ ''.'' @ ?fp"
    using assms by (simp add: format_f_def Let_def)
  ultimately show ?thesis by blast
qed

lemma float_of_str_9: "float_of_str ''9'' = Inr 9"
  by code_simp

lemma roundToMaxDigits_log10_of_9:
  "roundToMaxDigits (PFloat log10_of_9) = Inr (PStr ''0.95424251'')"
  by code_simp

lemma dec_digits_nonempty: "dec_digits n \<noteq> []"
  by (subst dec_digits.simps) simp

lemma dec_int_no_dot: "CHR ''.'' \<notin> set (dec_int i)"
  using dec_digits_no_dot by (simp add: dec_int_def)

lemma dec_int_nonempty: "0 < length (dec_int i)"
  using dec_digits_nonempty by (simp add: dec_int_def)

lemma format_f_0_no_dot: "CHR ''.'' \<notin> set (format_f 0 x)"
  using dec_digits_no_dot by (simp add: format_f_def Let_def)

lemma roundToMaxDigits_cases:
  "roundToMaxDigits (PFloat x) =
     (if of_int \<lfloor>x\<rfloor> = x then Inr (PInt \<lfloor>x\<rfloor>)
      else if length (float_repr x) \<le> 9 then Inr (PFloat x)
      else if length (dec_int (float_trunc x)) \<le> 9
        then Inr (PStr (format_f (9 - length (dec_int (float_trunc x))) x))
      else Inl ValueError)"
proof -
  have "of_int \<lfloor>x\<rfloor> = x \<Longrightarrow> float_trunc x = \<lfloor>x\<rfloor>"
    by (metis ceiling_of_int float_trunc_def)
  then show ?thesis
    by (auto simp: roundToMaxDigits_def Let_def nat_diff_distrib')
qed

lemma log_display_of_9:
  "cumulativeInputDisplayString (snd (logarithms lg True (numberPressed ''9'' init)))
   = (case roundToMaxDigits (PFloat (lg True 9)) of
        Inl e \<Rightarrow> if e = SyntaxError \<or> e = KeyError \<or> e = ValueError then ''ERROR'' else ''9''
      | Inr d \<Rightarrow> py_str d)"
  by (simp add: logarithms_def numberPressed_def init_def math_log_def float_of_str_9
      split: sum.splits)

lemma nine_fraction_digits_split:
  assumes "ip @ ''.'' @ fp = ''0.954242509''" and "CHR ''.'' \<notin> set ip"
  shows "length fp = 9"
proof -
  have "dropWhile (\<lambda>c. c \<noteq> CHR ''.'') (ip @ ''.'' @ fp) = ''.'' @ fp"
    using assms(2) by (induction ip) auto
  moreover have "dropWhile (\<lambda>c. c \<noteq> CHR ''.'') ''0.954242509'' = ''.954242509''"
    by simp
  ultimately have "''.'' @ fp = ''.954242509''" using assms(1) by simp
  then show ?thesis by auto
qed

lemma no_rendering_with_nine_decimals:
  "(case roundToMaxDigits (PFloat v) of
      Inl e \<Rightarrow> if e = SyntaxError \<or> e = KeyError \<or> e = ValueError then ''ERROR'' else ''9''
    | Inr d \<Rightarrow> py_str d) \<noteq> ''0.954242509''"
proof (cases "of_int \<lfloor>v\<rfloor> = v")
  case True
  have "CHR ''.'' \<in> set ''0.954242509''" by simp
  then have "dec_int \<lfloor>v\<rfloor> \<noteq> ''0.954242509''" using dec_int_no_dot[of "\<lfloor>v\<rfloor>"] by metis
  then show ?thesis using True by (simp add: roundToMaxDigits_cases py_str_def)
next
  case nonint: False
  show ?thesis
  proof (cases "length (float_repr v) \<le> 9")
    case True
    then have "float_repr v \<noteq> ''0.954242509''" by auto
    then show ?thesis using nonint True by (simp add: roundToMaxDigits_cases py_str_def)
  next
    case long: False
    let ?n = "length (dec_int (float_trunc v))"
    show ?thesis
    proof (cases "?n \<le> 9")
      case False
      then show ?thesis using nonint long by (simp add: roundToMaxDigits_cases)
    next
      case True
      have n1: "0 < ?n" by (rule dec_int_nonempty)
      have "format_f (9 - ?n) v \<noteq> ''0.954242509''"
      proof (cases "9 - ?n = 0")
        case True
        have "CHR ''.'' \<in> set ''0.954242509''" by simp
        then show ?thesis using format_f_0_no_dot[of v] True by metis
      next
        case False
        then have "0 < 9 - ?n" by simp
        from format_f_fraction[OF this, of v] obtain ip fp where
          f: "format_f (9 - ?n) v = ip @ ''.'' @ fp" and l: "length fp = 9 - ?n"
          and d: "CHR ''.'' \<notin> set ip" by blast
        show ?thesis
        proof
          assume "format_f (9 - ?n) v = ''0.954242509''"
          with f have "ip @ ''.'' @ fp = ''0.954242509''" by simp
          from nine_fraction_digits_split[OF this d] l n1 show False by arith
        qed
      qed
      then show ?thesis using nonint long True by (simp add: roundToMaxDigits_cases py_str_def)
    qed
  qed
qed

text \<open>
  Claim C9 (as stated: typing 9 and pressing Logarithm with base 10 displays
  \<open>0.954242509\<close>).  The integer part of a value between 0 and 1 is written with one
  character, so the formatter keeps 8 fractional digits: the double 0.9542425094393249
  that the library returns for the logarithm is displayed as \<open>0.95424251\<close>.  Whatever
  float the library logarithm returns, the display after that sequence is never
  \<open>0.954242509\<close>, which has 9 fractional digits.
\<close>

theorem log10_of_9_display_counterexample:
  "roundToMaxDigits (PFloat log10_of_9) = Inr (PStr ''0.95424251'')
   \<and> \<not> (\<exists>lg. cumulativeInputDisplayString
               (snd (logarithms lg True (numberPressed ''9'' init))) = ''0.954242509'')"
  using roundToMaxDigits_log10_of_9 no_rendering_with_nine_decimals
  by (simp add: log_display_of_9)

text \<open>
  Claim C9, amended.  The formatter turns a float without fractional part into the
  integer of the same value; leaves a float with a fractional part whose rendering has at
  most 9 characters as it is; and renders a float with a fractional part and a longer
  rendering with \<open>9 - n\<close> fractional digits, where \<open>n\<close> is the number of characters of
  the float truncated toward zero and written as an integer, when \<open>9 - n\<close> is not
  negative.  A rendering with \<open>p > 0\<close> fractional digits has exactly \<open>p\<close> characters
  after its decimal point.  When the base-10 logarithm of 9 is the double
  0.9542425094393249, typing 9 and pressing Logarithm displays \<open>0.95424251\<close>.
\<close>

theorem roundToMaxDigits_float:
  "(of_int \<lfloor>x\<rfloor> = x \<longrightarrow> roundToMaxDigits (PFloat x) = Inr (PInt \<lfloor>x\<rfloor>))
   \<and> (of_int \<lfloor>x\<rfloor> \<noteq> x \<and> length (float_repr x) \<le> 9
        \<longrightarrow> roundToMaxDigits (PFloat x) = Inr (PFloat x))
   \<and> (of_int \<lfloor>x\<rfloor> \<noteq> x \<and> 9 < length (float_repr x)
          \<and> length (dec_int (float_trunc x)) \<le> 9
        \<longrightarrow> roundToMaxDigits (PFloat x)
            = Inr (PStr (format_f (9 - length (dec_int (float_trunc x))) x)))
   \<and> (0 < p \<longrightarrow>
        (\<exists>ip fp. format_f p x = ip @ ''.'' @ fp \<and> length fp = p \<and> CHR ''.'' \<notin> set ip))
   \<and> (lg True 9 = log10_of_9 \<longrightarrow>
        cumulativeInputDisplayString (snd (logarithms lg True (numberPressed ''9'' init)))
          = ''0.95424251'')"
proof -
  have c: "lg True 9 = log10_of_9 \<Longrightarrow>
        cumulativeInputDisplayString (snd (logarithms lg True (numberPressed ''9'' init)))
          = ''0.95424251''"
    by (simp add: log_display_of_9 roundToMaxDigits_log10_of_9 py_str_def)
  have b: "0 < p \<longrightarrow>
        (\<exists>ip fp. format_f p x = ip @ ''.'' @ fp \<and> length fp = p \<and> CHR ''.'' \<notin> set ip)"
    using format_f_fraction[of p x] by blast
  show ?thesis unfolding roundToMaxDigits_cases using b c by simp
qed

theorem roundToMaxDigits_float_witness:
  "roundToMaxDigits (PFloat 2) = Inr (PInt 2)
   \<and> roundToMaxDigits (PFloat (5 / 2)) = Inr (PFloat (5 / 2))
   \<and> (0::nat) < 8
   \<and> (\<exists>ip fp. format_f 8 log10_of_9 = ip @ ''.'' @ fp \<and> length fp = 8 \<and> CHR ''.'' \<notin> set ip)
   \<and> roundToMaxDigits (PFloat log10_of_9) = Inr (PStr (format_f 8 log10_of_9))
   \<and> cumulativeInputDisplayString
        (snd (logarithms (\<lambda>b x. log10_of_9) True (numberPressed ''9'' init))) = ''0.95424251''"
proof -
  have l: "length (dec_int (float_trunc log10_of_9)) = 1" by code_simp
  have n: "of_int \<lfloor>log10_of_9\<rfloor> \<noteq> log10_of_9" by code_simp
  have m: "9 < length (float_repr log10_of_9)" by code_simp
  have i2: "of_int \<lfloor>2::rat\<rfloor> = (2::rat)" by simp
  have n5: "of_int \<lfloor>5 / 2 :: rat\<rfloor> \<noteq> (5 / 2 :: rat)" by code_simp
  have m5: "length (float_repr (5 / 2)) \<le> 9" by code_simp
  from roundToMaxDigits_float [of 2 p lg] i2
  have r2: "roundToMaxDigits (PFloat 2) = Inr (PInt 2)" by simp
  from roundToMaxDigits_float [of "5 / 2" p lg] n5 m5
  have r5: "roundToMaxDigits (PFloat (5 / 2)) = Inr (PFloat (5 / 2))" by blast
  from roundToMaxDigits_float [of log10_of_9 8 "\<lambda>b x. log10_of_9"]
  show ?thesis using l n m r2 r5 by simp
qed

text \<open>
  Claim C10.  With an empty number fragment, percentage, invert, exponentiate, square
  and logarithm (either base) return the state they were given and raise nothing.
\<close>

theorem unary_operations_empty_fragment:
  assumes "cumulativeNumInputList s = []"
  shows "percentage s = (None, s) \<and> invert s = s \<and> exponentiate s = s
         \<and> square ev s = (None, s) \<and> logarithms lg base10 s = (None, s)"
  using assms
  by (simp add: percentage_def invert_def exponentiate_def square_def logarithms_def)

theorem unary_operations_empty_fragment_witness:
  "cumulativeNumInputList init = []
   \<and> percentage init = (None, init) \<and> invert init = init \<and> exponentiate init = init
   \<and> square py_eval init = (None, init)
   \<and> logarithms (\<lambda>b x. log10_of_9) True init = (None, init)"
proof -
  have h: "cumulativeNumInputList init = []" by (simp add: init_def)
  from unary_operations_empty_fragment [OF h, of py_eval "\<lambda>b x. log10_of_9" True]
  show ?thesis using h by simp
qed

end
